theory Spec2Isabelle
  imports Main
begin

section \<open>JavaScript values\<close>

text \<open>
  The worker reads upstream JSON through \<^verbatim>\<open>as any\<close>, so every payload is an untyped
  JavaScript value. Numbers are the integers (and \<^verbatim>\<open>NaN\<close>, which \<^verbatim>\<open>parseInt\<close> produces);
  a double that is not an integer, or an integer beyond \<open>2^53\<close>, is outside the model.
  A string is the list of its UTF-16 code units, each below 256 (a string with a code
  unit beyond that is outside the model); the bytes of a response body are a list of the
  same type. An object is the list of its own properties in the order the
  runtime enumerates them (for a parsed JSON object whose keys are not array indices,
  the order of the text).
\<close>

datatype jsnum = NaN | Num int

datatype jsval =
    JUndefined
  | JNull
  | JBool bool
  | JNum jsnum
  | JStr string
  | JArr "jsval list"
  | JObj "(string \<times> jsval) list"

text \<open>A thrown \<^verbatim>\<open>Error\<close>: its \<^verbatim>\<open>name\<close> and its \<^verbatim>\<open>message\<close>.\<close>

datatype js_error = Thrown string string

definition TypeError :: "string \<Rightarrow> js_error" where
  "TypeError m = Thrown ''TypeError'' m"

definition SyntaxError :: "string \<Rightarrow> js_error" where
  "SyntaxError m = Thrown ''SyntaxError'' m"

definition RangeError :: "string \<Rightarrow> js_error" where
  "RangeError m = Thrown ''RangeError'' m"

text \<open>\<^verbatim>\<open>Error.prototype.toString\<close>, which a template literal applies to a caught error.\<close>

fun error_toString :: "js_error \<Rightarrow> string" where
  "error_toString (Thrown n m) =
     (if n = [] then m else if m = [] then n else n @ '': '' @ m)"

text \<open>Truthiness, as \<^verbatim>\<open>||\<close>, \<^verbatim>\<open>!\<close> and \<^verbatim>\<open>if\<close> read it.\<close>

fun truthy :: "jsval \<Rightarrow> bool" where
  "truthy JUndefined = False"
| "truthy JNull = False"
| "truthy (JBool b) = b"
| "truthy (JNum NaN) = False"
| "truthy (JNum (Num n)) = (n \<noteq> 0)"
| "truthy (JStr s) = (s \<noteq> [])"
| "truthy (JArr _) = True"
| "truthy (JObj _) = True"

text \<open>\<^verbatim>\<open>a || b\<close> on values.\<close>

definition or_else :: "jsval \<Rightarrow> jsval \<Rightarrow> jsval" where
  "or_else a b = (if truthy a then a else b)"

text \<open>Decimal rendering of an integer (\<open>digits\<close> is applied to naturals only).\<close>

function digits :: "int \<Rightarrow> string" where
  "digits n =
     (if n < 10 then [''0123456789'' ! nat n]
      else digits (n div 10) @ [''0123456789'' ! nat (n mod 10)])"
  by pat_completeness auto
termination
  by (relation "measure nat") auto

declare digits.simps [simp del]

definition int_toString :: "int \<Rightarrow> string" where
  "int_toString i = (if i < 0 then ''-'' @ digits (- i) else digits i)"

fun join :: "string \<Rightarrow> string list \<Rightarrow> string" where
  "join sep [] = []"
| "join sep [x] = x"
| "join sep (x # y # ys) = x @ sep @ join sep (y # ys)"

text \<open>
  \<^verbatim>\<open>String(v)\<close>, the conversion of a template literal. An array renders its elements
  joined by commas, with \<^verbatim>\<open>null\<close> and \<^verbatim>\<open>undefined\<close> elements empty; a plain object
  renders as \<^verbatim>\<open>[object Object]\<close>.
\<close>

fun toString :: "jsval \<Rightarrow> string" where
  "toString JUndefined = ''undefined''"
| "toString JNull = ''null''"
| "toString (JBool b) = (if b then ''true'' else ''false'')"
| "toString (JNum NaN) = ''NaN''"
| "toString (JNum (Num n)) = int_toString n"
| "toString (JStr s) = s"
| "toString (JArr xs) =
     join '','' (map (\<lambda>x. if x = JNull \<or> x = JUndefined then [] else toString x) xs)"
| "toString (JObj _) = ''[object Object]''"

text \<open>
  Property reads. \<^verbatim>\<open>v.k\<close> throws on \<^verbatim>\<open>null\<close> and \<^verbatim>\<open>undefined\<close>, finds an own property
  of an object, and is \<^verbatim>\<open>undefined\<close> otherwise: the program reads no inherited member
  (no \<^verbatim>\<open>length\<close>, no method) through a dynamic value.
\<close>

fun lookup :: "(string \<times> jsval) list \<Rightarrow> string \<Rightarrow> jsval" where
  "lookup [] k = JUndefined"
| "lookup ((k', v) # kvs) k = (if k' = k then v else lookup kvs k)"

fun get :: "jsval \<Rightarrow> string \<Rightarrow> js_error + jsval" where
  "get JUndefined k =
     Inl (TypeError (''Cannot read properties of undefined (reading '' @ [CHR 0x27] @ k @ [CHR 0x27] @ '')''))"
| "get JNull k =
     Inl (TypeError (''Cannot read properties of null (reading '' @ [CHR 0x27] @ k @ [CHR 0x27] @ '')''))"
| "get (JObj kvs) k = Inr (lookup kvs k)"
| "get _ k = Inr JUndefined"

text \<open>\<^verbatim>\<open>v?.k\<close>: \<^verbatim>\<open>undefined\<close> where \<^verbatim>\<open>v.k\<close> would throw.\<close>

fun get_opt :: "jsval \<Rightarrow> string \<Rightarrow> jsval" where
  "get_opt (JObj kvs) k = lookup kvs k"
| "get_opt _ k = JUndefined"

text \<open>\<^verbatim>\<open>v[i]\<close> and \<^verbatim>\<open>v?.[i]\<close> for a literal index.\<close>

fun elem :: "jsval \<Rightarrow> nat \<Rightarrow> jsval" where
  "elem (JArr xs) i = (if i < length xs then xs ! i else JUndefined)"
| "elem (JStr s) i = (if i < length s then JStr [s ! i] else JUndefined)"
| "elem (JObj kvs) i = lookup kvs (digits (int i))"
| "elem _ i = JUndefined"

fun get_index :: "jsval \<Rightarrow> nat \<Rightarrow> js_error + jsval" where
  "get_index JUndefined i =
     Inl (TypeError (''Cannot read properties of undefined (reading '' @ [CHR 0x27] @ digits (int i) @ [CHR 0x27] @ '')''))"
| "get_index JNull i =
     Inl (TypeError (''Cannot read properties of null (reading '' @ [CHR 0x27] @ digits (int i) @ [CHR 0x27] @ '')''))"
| "get_index v i = Inr (elem v i)"

fun get_index_opt :: "jsval \<Rightarrow> nat \<Rightarrow> jsval" where
  "get_index_opt JUndefined i = JUndefined"
| "get_index_opt JNull i = JUndefined"
| "get_index_opt v i = elem v i"

definition startsWith :: "string \<Rightarrow> string \<Rightarrow> bool" where
  "startsWith s p = (take (length p) s = p)"

section \<open>The upstream services\<close>

text \<open>
  Every \<^verbatim>\<open>fetch\<close> of the worker, by call site, with the part of the request that varies.
  The three balance lookups read the same URL in three separate requests, so each may be
  answered differently.
\<close>

datatype call =
    BnsLookup string
  | StxLookup string
  | FtLookup string
  | NftLookup string
  | TxLookup string
  | Generate string string
  | ImageFetch string
  | Stx402Generate string string

definition HIRO_API :: string where
  "HIRO_API = ''https://api.hiro.so''"

fun url_of :: "call \<Rightarrow> string" where
  "url_of (BnsLookup address) = HIRO_API @ ''/v1/addresses/stacks/'' @ address"
| "url_of (StxLookup address) = HIRO_API @ ''/extended/v1/address/'' @ address @ ''/balances''"
| "url_of (FtLookup address) = HIRO_API @ ''/extended/v1/address/'' @ address @ ''/balances''"
| "url_of (NftLookup address) = HIRO_API @ ''/extended/v1/address/'' @ address @ ''/balances''"
| "url_of (TxLookup normalizedTxid) = HIRO_API @ ''/extended/v1/tx/'' @ normalizedTxid"
| "url_of (Generate apiKey prompt) = ''https://api.openai.com/v1/images/generations''"
| "url_of (ImageFetch imageUrl) = imageUrl"
| "url_of (Stx402Generate base prompt) = base @ ''/api/ai/generate-image''"

text \<open>
  A settled \<^verbatim>\<open>Response\<close>: its \<^verbatim>\<open>ok\<close> flag, its status, and what \<^verbatim>\<open>json()\<close> and
  \<^verbatim>\<open>arrayBuffer()\<close> give (either may throw).
\<close>

record response =
  ok :: bool
  status :: nat
  json :: "js_error + jsval"
  arrayBuffer :: "js_error + string"

text \<open>
  What a request handler sees of the world: the answer to each fetch (a rejection is
  \<open>Inl\<close>), the random UUID, the clock with its ISO rendering, the rendering of a
  micro-unit balance \<^verbatim>\<open>(Number(b) / 1_000_000).toFixed(2)\<close> (floating point, so taken
  from the platform), and the bindings \<^verbatim>\<open>OPENAI_API_KEY\<close> (of the payment-gated worker) and
  \<^verbatim>\<open>STX402_BASE\<close> (of the stx402 worker in \<^verbatim>\<open>src/dev.ts\<close>).
\<close>

record platform =
  fetch :: "call \<Rightarrow> js_error + response"
  randomUUID :: string
  now :: int
  toISOString :: "int \<Rightarrow> string"
  toFixed2 :: "int \<Rightarrow> string"
  OPENAI_API_KEY :: "string option"
  STX402_BASE :: string

section \<open>Payment verification\<close>

definition PAYMENT_CONTRACT_address :: string where
  "PAYMENT_CONTRACT_address = ''SPP5ZMH9NQDFD2K5CEQZ6P02AP8YPWMQ75TJW20M''"

definition PAYMENT_CONTRACT_name :: string where
  "PAYMENT_CONTRACT_name = ''simple-oracle''"

definition CARD_PRICE :: int where
  "CARD_PRICE = 1"

definition expectedContract :: string where
  "expectedContract = PAYMENT_CONTRACT_address @ ''.'' @ PAYMENT_CONTRACT_name"

text \<open>The object \<^verbatim>\<open>verifyPayment\<close> resolves to; an absent field is \<open>None\<close>.\<close>

record verification =
  valid :: bool
  sender :: "jsval option"
  error :: "string option"

definition normalizedTxid :: "string \<Rightarrow> string" where
  "normalizedTxid txid = (if startsWith txid ''0x'' then txid else ''0x'' @ txid)"

definition invalid :: "string \<Rightarrow> verification" where
  "invalid reason = \<lparr>valid = False, sender = None, error = Some reason\<rparr>"

text \<open>The body of the \<^verbatim>\<open>try\<close> block: \<open>Inl\<close> is an exception on its way to the \<^verbatim>\<open>catch\<close>.\<close>

definition verifyPayment_try :: "platform \<Rightarrow> string \<Rightarrow> js_error + verification" where
  "verifyPayment_try p txid =
     (case fetch p (TxLookup (normalizedTxid txid)) of
        Inl e \<Rightarrow> Inl e
      | Inr response \<Rightarrow>
          if \<not> ok response then Inr (invalid ''Transaction not found'')
          else
            (case json response of
               Inl e \<Rightarrow> Inl e
             | Inr tx \<Rightarrow>
                 (case get tx ''tx_status'' of
                    Inl e \<Rightarrow> Inl e
                  | Inr tx_status \<Rightarrow>
                      if tx_status \<noteq> JStr ''success''
                      then Inr (invalid (''Transaction status: '' @ toString tx_status))
                      else
                        (case get tx ''tx_type'' of
                           Inl e \<Rightarrow> Inl e
                         | Inr tx_type \<Rightarrow>
                             if tx_type \<noteq> JStr ''contract_call''
                             then Inr (invalid ''Not a contract call'')
                             else
                               (case get tx ''contract_call'' of
                                  Inl e \<Rightarrow> Inl e
                                | Inr contract_call \<Rightarrow>
                                    if get_opt contract_call ''contract_id'' \<noteq> JStr expectedContract
                                    then Inr (invalid ''Wrong contract'')
                                    else
                                      (case get tx ''sender_address'' of
                                         Inl e \<Rightarrow> Inl e
                                       | Inr sender_address \<Rightarrow>
                                           Inr \<lparr>valid = True, sender = Some sender_address,
                                                error = None\<rparr>))))))"

text \<open>
  \<^verbatim>\<open>verifyPayment\<close>: the verdict, and the upstream calls it made. The fetch is the first
  statement of the \<^verbatim>\<open>try\<close>, so exactly one lookup is issued whatever the claim.
\<close>

definition verifyPayment :: "platform \<Rightarrow> string \<Rightarrow> verification \<times> call list" where
  "verifyPayment p txid =
     (case verifyPayment_try p txid of
        Inl e \<Rightarrow> invalid (''Verification failed: '' @ error_toString e)
      | Inr v \<Rightarrow> v,
      [TxLookup (normalizedTxid txid)])"

section \<open>Conversions of the runtime\<close>

text \<open>
  White space as \<^verbatim>\<open>parseInt\<close> and \<^verbatim>\<open>BigInt\<close> skip it: the code units below 256 that are
  white space or line terminators (tab, line feed, vertical tab, form feed, carriage
  return, space, no-break space).
\<close>

definition is_space :: "char \<Rightarrow> bool" where
  "is_space c =
     (c \<in> set [CHR 0x09, CHR 0x0A, CHR 0x0B, CHR 0x0C, CHR 0x0D, CHR 0x20, CHR 0xA0])"

definition trim :: "string \<Rightarrow> string" where
  "trim s = rev (dropWhile is_space (rev (dropWhile is_space s)))"

fun position :: "char \<Rightarrow> string \<Rightarrow> nat option" where
  "position c [] = None"
| "position c (x # xs) = (if c = x then Some 0 else map_option Suc (position c xs))"

text \<open>The value of a digit in base \<open>b\<close> (at most 16), if it is one.\<close>

definition digit_of :: "nat \<Rightarrow> char \<Rightarrow> nat option" where
  "digit_of b c =
     (case position c ''0123456789abcdef'' of
        Some d \<Rightarrow> if d < b then Some d else None
      | None \<Rightarrow>
          (case position c ''ABCDEF'' of
             Some d \<Rightarrow> if d + 10 < b then Some (d + 10) else None
           | None \<Rightarrow> None))"

fun parse_digits :: "nat \<Rightarrow> int \<Rightarrow> string \<Rightarrow> int option" where
  "parse_digits b acc [] = Some acc"
| "parse_digits b acc (c # cs) =
     (case digit_of b c of
        None \<Rightarrow> None
      | Some d \<Rightarrow> parse_digits b (acc * int b + int d) cs)"

text \<open>A non-empty run of digits in base \<open>b\<close>.\<close>

definition parse_nat :: "nat \<Rightarrow> string \<Rightarrow> int option" where
  "parse_nat b s = (if s = [] then None else parse_digits b 0 s)"

text \<open>
  \<^verbatim>\<open>StringToBigInt\<close>: the trimmed text is empty (zero), a decimal integer with an
  optional sign, or an unsigned literal with prefix \<^verbatim>\<open>0x\<close>, \<^verbatim>\<open>0o\<close> or \<^verbatim>\<open>0b\<close>.
\<close>

definition StringToBigInt :: "string \<Rightarrow> int option" where
  "StringToBigInt str =
     (let s = trim str in
      if s = [] then Some 0
      else if startsWith s ''0x'' \<or> startsWith s ''0X'' then parse_nat 16 (drop 2 s)
      else if startsWith s ''0o'' \<or> startsWith s ''0O'' then parse_nat 8 (drop 2 s)
      else if startsWith s ''0b'' \<or> startsWith s ''0B'' then parse_nat 2 (drop 2 s)
      else if startsWith s ''-'' then map_option uminus (parse_nat 10 (drop 1 s))
      else if startsWith s ''+'' then parse_nat 10 (drop 1 s)
      else parse_nat 10 s)"

text \<open>\<^verbatim>\<open>BigInt(v)\<close>.\<close>

fun BigInt :: "jsval \<Rightarrow> js_error + int" where
  "BigInt JUndefined = Inl (TypeError ''Cannot convert undefined to a BigInt'')"
| "BigInt JNull = Inl (TypeError ''Cannot convert null to a BigInt'')"
| "BigInt (JBool b) = Inr (if b then 1 else 0)"
| "BigInt (JNum NaN) =
     Inl (RangeError ''The number NaN cannot be converted to a BigInt because it is not an integer'')"
| "BigInt (JNum (Num n)) = Inr n"
| "BigInt v =
     (case StringToBigInt (toString v) of
        None \<Rightarrow> Inl (SyntaxError (''Cannot convert '' @ toString v @ '' to a BigInt''))
      | Some n \<Rightarrow> Inr n)"

text \<open>
  \<^verbatim>\<open>parseInt(v, 10)\<close>: the text of \<open>v\<close> after leading white space, an optional sign and
  the longest run of decimal digits; \<^verbatim>\<open>NaN\<close> when that run is empty.
\<close>

definition is_digit :: "char \<Rightarrow> bool" where
  "is_digit c = (c \<in> set ''0123456789'')"

definition parseInt10 :: "jsval \<Rightarrow> jsnum" where
  "parseInt10 v =
     (let s = dropWhile is_space (toString v);
          neg = startsWith s ''-'';
          body = (if startsWith s ''-'' \<or> startsWith s ''+'' then drop 1 s else s)
      in case parse_nat 10 (takeWhile is_digit body) of
           None \<Rightarrow> NaN
         | Some n \<Rightarrow> Num (if neg then - n else n))"

text \<open>
  Addition of numbers: \<^verbatim>\<open>NaN\<close> absorbs. The sum of two integers is their exact sum; the
  runtime computes the same as long as the operands and the sum are of magnitude at
  most \<open>2^53\<close> and rounds beyond, so a statement about a sum carries that bound.
\<close>

fun add :: "jsnum \<Rightarrow> jsnum \<Rightarrow> jsnum" where
  "add (Num a) (Num b) = Num (a + b)"
| "add _ _ = NaN"

text \<open>
  \<^verbatim>\<open>s.split(sep)\<close> for a non-empty separator: the pieces between its occurrences, found
  left to right.
\<close>

fun split_from :: "string \<Rightarrow> string \<Rightarrow> string \<Rightarrow> string list" where
  "split_from [] piece cs = [piece @ cs]"
| "split_from (s # sep) piece [] = [piece]"
| "split_from (s # sep) piece (c # cs) =
     (if c = s \<and> take (length sep) cs = sep
      then piece # split_from (s # sep) [] (drop (length sep) cs)
      else split_from (s # sep) (piece @ [c]) cs)"

definition split :: "string \<Rightarrow> string \<Rightarrow> string list" where
  "split str sep = split_from sep [] str"

text \<open>\<^verbatim>\<open>parts[i]\<close> of an array of strings: \<open>None\<close> is \<^verbatim>\<open>undefined\<close>.\<close>

definition part :: "string list \<Rightarrow> nat \<Rightarrow> string option" where
  "part parts i = (if i < length parts then Some (parts ! i) else None)"

text \<open>\<^verbatim>\<open>x || d\<close> where \<open>x\<close> is a string or \<^verbatim>\<open>undefined\<close>: the empty string is falsy too.\<close>

definition or_default :: "string option \<Rightarrow> string \<Rightarrow> string" where
  "or_default x d = (case x of None \<Rightarrow> d | Some s \<Rightarrow> if s = [] then d else s)"

text \<open>
  The own enumerable properties of a value, as object spread and \<^verbatim>\<open>Object.entries\<close>
  list them: an array's and a string's are its indices.
\<close>

fun indexed :: "nat \<Rightarrow> jsval list \<Rightarrow> (string \<times> jsval) list" where
  "indexed i [] = []"
| "indexed i (x # xs) = (digits (int i), x) # indexed (Suc i) xs"

fun own_entries :: "jsval \<Rightarrow> (string \<times> jsval) list" where
  "own_entries (JObj kvs) = kvs"
| "own_entries (JArr xs) = indexed 0 xs"
| "own_entries (JStr s) = indexed 0 (map (\<lambda>c. JStr [c]) s)"
| "own_entries _ = []"

fun Object_entries :: "jsval \<Rightarrow> js_error + (string \<times> jsval) list" where
  "Object_entries JUndefined = Inl (TypeError ''Cannot convert undefined or null to object'')"
| "Object_entries JNull = Inl (TypeError ''Cannot convert undefined or null to object'')"
| "Object_entries v = Inr (own_entries v)"

text \<open>\<^verbatim>\<open>xs.map(f)\<close> where \<open>f\<close> may throw: the first exception ends the traversal.\<close>

fun map_throwing :: "('a \<Rightarrow> js_error + 'b) \<Rightarrow> 'a list \<Rightarrow> js_error + 'b list" where
  "map_throwing f [] = Inr []"
| "map_throwing f (x # xs) =
     (case f x of
        Inl e \<Rightarrow> Inl e
      | Inr y \<Rightarrow> (case map_throwing f xs of Inl e \<Rightarrow> Inl e | Inr ys \<Rightarrow> Inr (y # ys)))"

section \<open>Wallet data\<close>

text \<open>
  The field \<^verbatim>\<open>name\<close> of a \<^verbatim>\<open>topNfts\<close> entry is \<open>nft_name\<close> here. \<^verbatim>\<open>bnsName\<close> is
  declared \<^verbatim>\<open>string | null\<close>, but holds whatever truthy value \<^verbatim>\<open>names[0]\<close> was.
\<close>

record ftBalance =
  symbol :: string
  balance :: string
  name :: string

record topNft =
  nft_name :: string
  collection :: string

record WalletData =
  address :: string
  bnsName :: jsval
  stxBalance :: string
  ftBalances :: "ftBalance list"
  nftCount :: jsnum
  topNfts :: "topNft list"

definition getBnsName_try :: "platform \<Rightarrow> string \<Rightarrow> js_error + jsval" where
  "getBnsName_try p addr =
     (case fetch p (BnsLookup addr) of
        Inl e \<Rightarrow> Inl e
      | Inr res \<Rightarrow>
          if \<not> ok res then Inr JNull
          else
            (case json res of
               Inl e \<Rightarrow> Inl e
             | Inr data \<Rightarrow>
                 (case get data ''names'' of
                    Inl e \<Rightarrow> Inl e
                  | Inr names \<Rightarrow> Inr (or_else (get_index_opt names 0) JNull))))"

definition getBnsName :: "platform \<Rightarrow> string \<Rightarrow> jsval \<times> call list" where
  "getBnsName p addr =
     (case getBnsName_try p addr of Inl e \<Rightarrow> JNull | Inr v \<Rightarrow> v, [BnsLookup addr])"

definition getStxBalance_try :: "platform \<Rightarrow> string \<Rightarrow> js_error + string" where
  "getStxBalance_try p addr =
     (case fetch p (StxLookup addr) of
        Inl e \<Rightarrow> Inl e
      | Inr res \<Rightarrow>
          if \<not> ok res then Inr ''0''
          else
            (case json res of
               Inl e \<Rightarrow> Inl e
             | Inr data \<Rightarrow>
                 (case get data ''stx'' of
                    Inl e \<Rightarrow> Inl e
                  | Inr stx \<Rightarrow>
                      (case BigInt (or_else (get_opt stx ''balance'') (JStr ''0'')) of
                         Inl e \<Rightarrow> Inl e
                       | Inr b \<Rightarrow> Inr (toFixed2 p b)))))"

definition getStxBalance :: "platform \<Rightarrow> string \<Rightarrow> string \<times> call list" where
  "getStxBalance p addr =
     (case getStxBalance_try p addr of Inl e \<Rightarrow> ''0'' | Inr v \<Rightarrow> v, [StxLookup addr])"

text \<open>The arrow function mapped over the kept fungible entries.\<close>

definition ft_of_entry :: "platform \<Rightarrow> string \<times> jsval \<Rightarrow> js_error + ftBalance" where
  "ft_of_entry p entry =
     (let parts = split (fst entry) ''::'' in
      case get (snd entry) ''balance'' of
        Inl e \<Rightarrow> Inl e
      | Inr b \<Rightarrow>
          (case BigInt (or_else b (JStr ''0'')) of
             Inl e \<Rightarrow> Inl e
           | Inr n \<Rightarrow>
               Inr \<lparr>symbol = or_default (map_option (take 6) (part parts 1)) ''TKN'',
                    balance = toFixed2 p n,
                    name = or_default (part parts 1) ''Token''\<rparr>))"

definition getFtBalances_try :: "platform \<Rightarrow> string \<Rightarrow> js_error + ftBalance list" where
  "getFtBalances_try p addr =
     (case fetch p (FtLookup addr) of
        Inl e \<Rightarrow> Inl e
      | Inr res \<Rightarrow>
          if \<not> ok res then Inr []
          else
            (case json res of
               Inl e \<Rightarrow> Inl e
             | Inr data \<Rightarrow>
                 (case get data ''fungible_tokens'' of
                    Inl e \<Rightarrow> Inl e
                  | Inr fungible_tokens \<Rightarrow>
                      (case Object_entries (or_else fungible_tokens (JObj [])) of
                         Inl e \<Rightarrow> Inl e
                       | Inr entries \<Rightarrow> map_throwing (ft_of_entry p) (take 5 entries)))))"

definition getFtBalances :: "platform \<Rightarrow> string \<Rightarrow> ftBalance list \<times> call list" where
  "getFtBalances p addr =
     (case getFtBalances_try p addr of Inl e \<Rightarrow> [] | Inr v \<Rightarrow> v, [FtLookup addr])"

text \<open>The reducer of \<^verbatim>\<open>count\<close> (its accumulator \<^verbatim>\<open>sum\<close> is \<open>acc\<close>), and the arrow function mapped over the kept collections.\<close>

definition count_step :: "jsnum \<Rightarrow> string \<times> jsval \<Rightarrow> js_error + jsnum" where
  "count_step acc entry =
     (case get (snd entry) ''count'' of
        Inl e \<Rightarrow> Inl e
      | Inr c \<Rightarrow> Inr (add acc (parseInt10 (or_else c (JStr ''0'')))))"

fun reduce_count :: "jsnum \<Rightarrow> (string \<times> jsval) list \<Rightarrow> js_error + jsnum" where
  "reduce_count acc [] = Inr acc"
| "reduce_count acc (entry # entries) =
     (case count_step acc entry of
        Inl e \<Rightarrow> Inl e
      | Inr acc' \<Rightarrow> reduce_count acc' entries)"

definition nft_of_entry :: "string \<times> jsval \<Rightarrow> topNft" where
  "nft_of_entry entry =
     (let parts = split (fst entry) ''::'' in
      \<lparr>nft_name = or_default (part parts 1) ''NFT'',
       collection =
         or_default (case part parts 0 of None \<Rightarrow> None | Some s \<Rightarrow> part (split s ''.'') 1)
           ''Unknown''\<rparr>)"

record nftHoldings =
  count :: jsnum
  top :: "topNft list"

definition getNftHoldings_try :: "platform \<Rightarrow> string \<Rightarrow> js_error + nftHoldings" where
  "getNftHoldings_try p addr =
     (case fetch p (NftLookup addr) of
        Inl e \<Rightarrow> Inl e
      | Inr res \<Rightarrow>
          if \<not> ok res then Inr \<lparr>count = Num 0, top = []\<rparr>
          else
            (case json res of
               Inl e \<Rightarrow> Inl e
             | Inr data \<Rightarrow>
                 (case get data ''non_fungible_tokens'' of
                    Inl e \<Rightarrow> Inl e
                  | Inr nfts \<Rightarrow>
                      (case Object_entries (or_else nfts (JObj [])) of
                         Inl e \<Rightarrow> Inl e
                       | Inr entries \<Rightarrow>
                           (case reduce_count (Num 0) entries of
                              Inl e \<Rightarrow> Inl e
                            | Inr n \<Rightarrow>
                                Inr \<lparr>count = n, top = map nft_of_entry (take 3 entries)\<rparr>)))))"

definition getNftHoldings :: "platform \<Rightarrow> string \<Rightarrow> nftHoldings \<times> call list" where
  "getNftHoldings p addr =
     (case getNftHoldings_try p addr of
        Inl e \<Rightarrow> \<lparr>count = Num 0, top = []\<rparr>
      | Inr v \<Rightarrow> v,
      [NftLookup addr])"

text \<open>
  The block every handler repeats: the four lookups started together by
  \<^verbatim>\<open>Promise.all\<close> (each issues its fetch when called, in this order; none rejects), and
  the record built from what they resolve to.
\<close>

definition fetchWalletData :: "platform \<Rightarrow> string \<Rightarrow> WalletData \<times> call list" where
  "fetchWalletData p addr =
     (let (bns, c1) = getBnsName p addr;
          (stx, c2) = getStxBalance p addr;
          (fts, c3) = getFtBalances p addr;
          (nftData, c4) = getNftHoldings p addr
      in (\<lparr>address = addr, bnsName = bns, stxBalance = stx, ftBalances = fts,
           nftCount = count nftData, topNfts = top nftData\<rparr>,
          c1 @ c2 @ c3 @ c4))"

section \<open>The image prompt\<close>

definition dq :: string where
  "dq = [CHR 0x22]"

definition nl :: string where
  "nl = [CHR 0x0A]"

text \<open>
  \<^verbatim>\<open>buildImagePrompt\<close>. The source also computes \<^verbatim>\<open>nfts\<close>, the collections joined by
  commas, and never uses it. \<^verbatim>\<open>slice(-4)\<close> is the last four characters, or the whole
  string when it is shorter.
\<close>

definition buildImagePrompt :: "WalletData \<Rightarrow> string" where
  "buildImagePrompt wallet =
     (let display =
            (if truthy (bnsName wallet) then toString (bnsName wallet)
             else take 8 (address wallet) @ ''...''
                  @ drop (length (address wallet) - 4) (address wallet));
          tokens =
            (if length (ftBalances wallet) > 0
             then join '', '' (map name (ftBalances wallet))
             else ''STX only'')
      in join nl
        [''Create a sleek digital identity card for a cryptocurrency wallet holder.'',
         '''',
         ''Style: Modern cyberpunk aesthetic, dark background (#0a0a0f) with vibrant orange (#f7931a) and electric blue (#00d4ff) accent colors. Premium holographic effect.'',
         '''',
         ''Layout: Horizontal card (16:9), like a premium membership card.'',
         '''',
         ''Elements to include:'',
         ''- Display name prominently: '' @ dq @ display @ dq,
         ''- Balance display: '' @ dq @ stxBalance wallet @ '' STX'' @ dq,
         ''- Token badges: '' @ tokens,
         ''- NFT count: '' @ dq @ toString (JNum (nftCount wallet)) @ '' NFTs'' @ dq,
         ''- Abstract circuit/blockchain pattern in background'',
         ''- Subtle grid lines suggesting a digital ledger'',
         ''- Holographic shimmer strip on one edge'',
         ''- Small Stacks logo watermark'',
         '''',
         ''Typography: Clean sans-serif, high contrast white text on dark.'',
         ''Overall feel: Exclusive crypto club membership, collectible, premium.''])"

section \<open>Image generation\<close>

text \<open>What \<^verbatim>\<open>generateImage\<close> resolves to; its field \<^verbatim>\<open>error\<close> is \<open>image_error\<close> here.\<close>

record imageResult =
  success :: bool
  imageUrl :: "jsval option"
  image_error :: "jsval option"

definition generateImage_try :: "platform \<Rightarrow> string \<Rightarrow> string \<Rightarrow> js_error + imageResult" where
  "generateImage_try p apiKey prompt =
     (case fetch p (Generate apiKey prompt) of
        Inl e \<Rightarrow> Inl e
      | Inr res \<Rightarrow>
          if \<not> ok res then
            (case json res of
               Inl e \<Rightarrow> Inl e
             | Inr err \<Rightarrow>
                 (case get err ''error'' of
                    Inl e \<Rightarrow> Inl e
                  | Inr inner \<Rightarrow>
                      Inr \<lparr>success = False, imageUrl = None,
                           image_error =
                             Some (or_else (get_opt inner ''message'')
                                     (JStr ''Image generation failed''))\<rparr>))
          else
            (case json res of
               Inl e \<Rightarrow> Inl e
             | Inr data \<Rightarrow>
                 (case get data ''data'' of
                    Inl e \<Rightarrow> Inl e
                  | Inr items \<Rightarrow>
                      (case get_index items 0 of
                         Inl e \<Rightarrow> Inl e
                       | Inr item \<Rightarrow>
                           (case get item ''url'' of
                              Inl e \<Rightarrow> Inl e
                            | Inr url \<Rightarrow>
                                Inr \<lparr>success = True, imageUrl = Some url,
                                     image_error = None\<rparr>)))))"

definition generateImage :: "platform \<Rightarrow> string \<Rightarrow> string \<Rightarrow> imageResult \<times> call list" where
  "generateImage p apiKey prompt =
     (if apiKey = [] then
        (\<lparr>success = False, imageUrl = None,
          image_error = Some (JStr ''Image generation not configured'')\<rparr>, [])
      else
        (case generateImage_try p apiKey prompt of
           Inl e \<Rightarrow>
             \<lparr>success = False, imageUrl = None,
              image_error = Some (JStr (''Image generation error: '' @ error_toString e))\<rparr>
         | Inr r \<Rightarrow> r,
         [Generate apiKey prompt]))"

section \<open>The routes\<close>

text \<open>
  What a handler answers: \<^verbatim>\<open>c.json(body, status)\<close>, a binary \<^verbatim>\<open>Response\<close> with its headers
  (status 200), or an exception that leaves the handler (the framework then answers 500).
  The body is the value handed to \<^verbatim>\<open>c.json\<close>; when it is written out, a field whose value
  is \<^verbatim>\<open>undefined\<close> is dropped and \<^verbatim>\<open>NaN\<close> becomes \<^verbatim>\<open>null\<close>.
\<close>

datatype http_response =
    Json nat jsval
  | Binary "(string \<times> string) list" string
  | Uncaught js_error

text \<open>The pattern \<^verbatim>\<open>/^S[PM][A-Z0-9]{38,40}$/\<close>.\<close>

definition is_upper_or_digit :: "char \<Rightarrow> bool" where
  "is_upper_or_digit c = (c \<in> set ''ABCDEFGHIJKLMNOPQRSTUVWXYZ0123456789'')"

definition matches_address :: "string \<Rightarrow> bool" where
  "matches_address a =
     (case a of
        c1 # c2 # rest \<Rightarrow>
          c1 = CHR ''S'' \<and> (c2 = CHR ''P'' \<or> c2 = CHR ''M'') \<and>
          38 \<le> length rest \<and> length rest \<le> 40 \<and> list_all is_upper_or_digit rest
      | _ \<Rightarrow> False)"

definition invalid_address :: http_response where
  "invalid_address = Json 400 (JObj [(''error'', JStr ''Invalid Stacks address format'')])"

definition ft_json :: "ftBalance \<Rightarrow> jsval" where
  "ft_json t =
     JObj [(''name'', JStr (name t)), (''symbol'', JStr (symbol t)), (''balance'', JStr (balance t))]"

definition nft_json :: "topNft \<Rightarrow> jsval" where
  "nft_json n = JObj [(''collection'', JStr (collection n)), (''name'', JStr (nft_name n))]"

definition walletData_json :: "WalletData \<Rightarrow> jsval" where
  "walletData_json w =
     JObj [(''address'', JStr (address w)),
           (''bnsName'', bnsName w),
           (''stxBalance'', JStr (stxBalance w)),
           (''ftBalances'', JArr (map ft_json (ftBalances w))),
           (''nftCount'', JNum (nftCount w)),
           (''topNfts'', JArr (map nft_json (topNfts w)))]"

definition data_route :: "platform \<Rightarrow> string \<Rightarrow> http_response \<times> call list" where
  "data_route p addr =
     (if \<not> matches_address addr then (invalid_address, [])
      else
        (let (walletData, calls) = fetchWalletData p addr
         in (Json 200 (walletData_json walletData), calls)))"

definition prompt_route :: "platform \<Rightarrow> string \<Rightarrow> http_response \<times> call list" where
  "prompt_route p addr =
     (if \<not> matches_address addr then (invalid_address, [])
      else
        (let (walletData, calls) = fetchWalletData p addr;
             prompt = buildImagePrompt walletData
         in (Json 200
               (JObj [(''walletData'', walletData_json walletData),
                      (''prompt'', JStr prompt),
                      (''note'',
                       JStr ''This prompt will be sent to AI image generation when you call /card/:address'')]),
             calls)))"

text \<open>The 402 challenge of the payment-gated \<^verbatim>\<open>/card/:address\<close>.\<close>

definition challenge :: "platform \<Rightarrow> string \<Rightarrow> jsval" where
  "challenge p addr =
     JObj [(''error'', JStr ''Payment Required''),
           (''code'', JStr ''PAYMENT_REQUIRED''),
           (''resource'', JStr (''/card/'' @ addr)),
           (''payment'',
            JObj [(''contract'', JStr (PAYMENT_CONTRACT_address @ ''.'' @ PAYMENT_CONTRACT_name)),
                  (''function'', JStr ''call-with-stx''),
                  (''price'', JNum (Num CARD_PRICE)),
                  (''token'', JStr ''STX''),
                  (''recipient'', JStr PAYMENT_CONTRACT_address),
                  (''network'', JStr ''mainnet'')]),
           (''instructions'',
            JArr [JStr ''1. Call the contract function with STX payment'',
                  JStr ''2. Wait for transaction confirmation'',
                  JStr ''3. Retry request with X-Payment header containing txid'']),
           (''nonce'', JStr (randomUUID p)),
           (''expiresAt'', JStr (toISOString p (now p + 10 * 60 * 1000))),
           (''description'', JStr ''Generate AI-powered wallet identity card'')]"

definition opt_val :: "jsval option \<Rightarrow> jsval" where
  "opt_val x = (case x of None \<Rightarrow> JUndefined | Some v \<Rightarrow> v)"

text \<open>
  The payment-gated handler from the wallet lookups on (the request has passed the
  address check and its payment has been verified).
\<close>

definition card_paid :: "platform \<Rightarrow> string \<Rightarrow> string \<Rightarrow> http_response \<times> call list" where
  "card_paid p addr paymentTxid =
     (let (walletData, c1) = fetchWalletData p addr;
          prompt = buildImagePrompt walletData;
          (imageResult, c2) =
            generateImage p (case OPENAI_API_KEY p of None \<Rightarrow> [] | Some k \<Rightarrow> k) prompt
      in if \<not> success imageResult then
           (Json 500
              (JObj [(''error'', JStr ''Image generation failed''),
                     (''details'', opt_val (image_error imageResult)),
                     (''walletData'', walletData_json walletData),
                     (''prompt'', JStr prompt),
                     (''payment_received'', JBool True),
                     (''payment_txid'', JStr paymentTxid)]),
            c1 @ c2)
         else
           (let url = toString (opt_val (imageUrl imageResult));
                calls = c1 @ c2 @ [ImageFetch url]
            in case fetch p (ImageFetch url) of
                 Inl e \<Rightarrow> (Uncaught e, calls)
               | Inr imageResponse \<Rightarrow>
                   if \<not> ok imageResponse then
                     (Json 500
                        (JObj [(''error'', JStr ''Failed to fetch generated image''),
                               (''imageUrl'', opt_val (imageUrl imageResult)),
                               (''walletData'', walletData_json walletData)]),
                      calls)
                   else
                     (case arrayBuffer imageResponse of
                        Inl e \<Rightarrow> (Uncaught e, calls)
                      | Inr img \<Rightarrow>
                          (Binary
                             [(''Content-Type'', ''image/png''),
                              (''Cache-Control'', ''public, max-age=3600''),
                              (''X-Wallet-Address'', addr),
                              (''X-BNS-Name'', toString (or_else (bnsName walletData) (JStr ''none''))),
                              (''X-Payment-Verified'', ''true'')]
                             img,
                           calls))))"

text \<open>
  \<^verbatim>\<open>GET /card/:address\<close> of the payment-gated worker. \<open>paymentTxid\<close> is the header
  \<^verbatim>\<open>X-Payment\<close>, \<open>None\<close> when the request has none; \<^verbatim>\<open>!paymentTxid\<close> holds for a missing
  header and for an empty one.
\<close>

definition card_route :: "platform \<Rightarrow> string \<Rightarrow> string option \<Rightarrow> http_response \<times> call list" where
  "card_route p addr paymentTxid =
     (if \<not> matches_address addr then (invalid_address, [])
      else
        (case paymentTxid of
           None \<Rightarrow> (Json 402 (challenge p addr), [])
         | Some txid \<Rightarrow>
             if txid = [] then (Json 402 (challenge p addr), [])
             else
               (let (verification, c0) = verifyPayment p txid
                in if \<not> valid verification then
                     (Json 403
                        (JObj [(''error'', JStr ''Payment verification failed''),
                               (''details'',
                                case error verification of
                                  None \<Rightarrow> JUndefined
                                | Some reason \<Rightarrow> JStr reason)]),
                      c0)
                   else
                     (let (r, c) = card_paid p addr txid in (r, c0 @ c)))))"

subsection \<open>The stx402 worker of \<^verbatim>\<open>src/dev.ts\<close>\<close>

text \<open>
  An object literal that assigns \<open>k\<close> after a spread: the property keeps its place when
  the spread already had it.
\<close>

fun set_prop :: "(string \<times> jsval) list \<Rightarrow> string \<Rightarrow> jsval \<Rightarrow> (string \<times> jsval) list" where
  "set_prop [] k v = [(k, v)]"
| "set_prop ((k', v') # kvs) k v =
     (if k' = k then (k, v) # kvs else (k', v') # set_prop kvs k v)"

text \<open>
  \<^verbatim>\<open>GET /card/:address\<close> of the second worker in \<^verbatim>\<open>src/dev.ts\<close>: no payment header is
  read, the generator is the stx402 endpoint, and its fetch is not guarded.
\<close>

definition dev_card_route :: "platform \<Rightarrow> string \<Rightarrow> http_response \<times> call list" where
  "dev_card_route p addr =
     (if \<not> matches_address addr then (invalid_address, [])
      else
        (let (walletData, c1) = fetchWalletData p addr;
             prompt = buildImagePrompt walletData;
             calls = c1 @ [Stx402Generate (STX402_BASE p) prompt]
         in case fetch p (Stx402Generate (STX402_BASE p) prompt) of
              Inl e \<Rightarrow> (Uncaught e, calls)
            | Inr imageRes \<Rightarrow>
                if status imageRes = 402 then
                  (case json imageRes of
                     Inl e \<Rightarrow> (Uncaught e, calls)
                   | Inr paymentInfo \<Rightarrow>
                       (Json 402
                          (JObj (set_prop
                                   (set_prop
                                      (set_prop (own_entries paymentInfo) ''note''
                                         (JStr ''Pay to generate your wallet identity card''))
                                      ''walletData'' (walletData_json walletData))
                                   ''prompt'' (JStr prompt))),
                        calls))
                else if \<not> ok imageRes then
                  (Json 500
                     (JObj [(''error'', JStr ''Failed to generate image''),
                            (''status'', JNum (Num (int (status imageRes)))),
                            (''walletData'', walletData_json walletData),
                            (''prompt'', JStr prompt)]),
                   calls)
                else
                  (case arrayBuffer imageRes of
                     Inl e \<Rightarrow> (Uncaught e, calls)
                   | Inr img \<Rightarrow>
                       (Binary
                          [(''Content-Type'', ''image/png''),
                           (''Cache-Control'', ''public, max-age=3600''),
                           (''X-Wallet-Address'', addr),
                           (''X-BNS-Name'', toString (or_else (bnsName walletData) (JStr ''none'')))]
                          img,
                        calls))))"

section \<open>Sample worlds\<close>

text \<open>
  Concrete platforms on which the handlers are run below. \<open>sample_toFixed2\<close> renders a
  balance of micro-units with two decimals by cutting the rest off; it stands in for the
  runtime's rounding only in these samples, as the plain number of milliseconds stands
  in for the ISO rendering of a time.
\<close>

definition sample_address :: string where
  "sample_address = ''SP2J6ZY48GV1EZ5V2V5RB9MP66SW86PYKKNRV9EJ7''"

definition sample_toFixed2 :: "int \<Rightarrow> string" where
  "sample_toFixed2 b =
     int_toString (b div 1000000) @ ''.''
     @ digits ((b mod 1000000) div 100000) @ digits ((b mod 100000) div 10000)"

definition json_response :: "nat \<Rightarrow> jsval \<Rightarrow> response" where
  "json_response code body =
     \<lparr>ok = (200 \<le> code \<and> code < 300), status = code, json = Inr body,
      arrayBuffer = Inr []\<rparr>"

text \<open>Every fetch is rejected: a total outage of all upstream services.\<close>

definition offline :: platform where
  "offline =
     \<lparr>fetch = (\<lambda>c. Inl (TypeError ''fetch failed'')),
      randomUUID = ''123e4567-e89b-42d3-a456-426614174000'',
      now = 1700000000000,
      toISOString = int_toString,
      toFixed2 = sample_toFixed2,
      OPENAI_API_KEY = Some ''sk-test'',
      STX402_BASE = ''https://stx402.com''\<rparr>"

definition sample_tx :: jsval where
  "sample_tx =
     JObj [(''tx_id'', JStr ''0xabc''),
           (''tx_status'', JStr ''success''),
           (''tx_type'', JStr ''contract_call''),
           (''sender_address'', JStr ''SP3FBR2AGK5H9QBDH3EEN6DF8EK8JY7RX8QJ5SVTE''),
           (''contract_call'',
            JObj [(''contract_id'', JStr ''SPP5ZMH9NQDFD2K5CEQZ6P02AP8YPWMQ75TJW20M.simple-oracle''),
                  (''function_name'', JStr ''call-with-stx'')])]"

definition sample_fungible_tokens :: jsval where
  "sample_fungible_tokens =
     JObj [(''SP1A.welsh::welshcorgicoin'', JObj [(''balance'', JStr ''100000000'')]),
           (''SP1A.alex::alex'', JObj [(''balance'', JStr ''2500000'')]),
           (''SP1A.usda::usda'', JObj [(''balance'', JStr ''7000000'')]),
           (''SP1A.miami::miamicoin'', JObj [(''balance'', JStr ''42'')]),
           (''SP1A.nyc::newyorkcitycoin'', JObj [(''balance'', JStr ''0'')]),
           (''SP1A.diko::diko'', JObj [(''balance'', JStr ''9000000'')]),
           (''SP1A.xbtc::wrapped-bitcoin'', JObj [(''balance'', JStr ''1'')]),
           (''SP1A.leo::leo'', JObj [(''balance'', JStr ''55000000'')])]"

definition sample_non_fungible_tokens :: jsval where
  "sample_non_fungible_tokens =
     JObj [(''SP2B.megapont-robot-nft::robot'', JObj [(''count'', JStr ''4'')]),
           (''SP2B.bitcoin-monkeys::monkey'', JObj [(''count'', JStr ''2'')]),
           (''SP2B.crashpunks::punk'', JObj [(''count'', JStr ''1'')]),
           (''SP2B.bns::names'', JObj [(''count'', JStr ''3'')]),
           (''SP2B.satoshibles::satoshible'', JObj [(''count'', JStr ''10'')]),
           (''SP2B.stacks-parrots::parrot'', JObj [(''count'', JStr ''20'')]),
           (''SP2B.boomboxes::boombox'', JObj [(''count'', JStr ''5'')])]"

definition sample_balances :: jsval where
  "sample_balances =
     JObj [(''stx'', JObj [(''balance'', JStr ''1234560000'')]),
           (''fungible_tokens'', sample_fungible_tokens),
           (''non_fungible_tokens'', sample_non_fungible_tokens)]"

text \<open>
  A world in which the transaction \<^verbatim>\<open>0xabc\<close> is a confirmed call of the payment contract
  (any other transaction is unknown), the wallet holds eight fungible tokens and seven
  collections, the image generator returns a URL, and that URL is gone (404); the stx402
  generator asks for a payment.
\<close>

fun sample_fetch :: "call \<Rightarrow> js_error + response" where
  "sample_fetch (TxLookup t) =
     (if t = ''0xabc'' then Inr (json_response 200 sample_tx)
      else Inr (json_response 404 (JObj [(''error'', JStr ''not found'')])))"
| "sample_fetch (BnsLookup a) = Inr (json_response 200 (JObj [(''names'', JArr [JStr ''whoabuddy.btc''])]))"
| "sample_fetch (StxLookup a) = Inr (json_response 200 sample_balances)"
| "sample_fetch (FtLookup a) = Inr (json_response 200 sample_balances)"
| "sample_fetch (NftLookup a) = Inr (json_response 200 sample_balances)"
| "sample_fetch (Generate k prompt) =
     Inr (json_response 200
            (JObj [(''data'', JArr [JObj [(''url'', JStr ''https://img.example/card.png'')]])]))"
| "sample_fetch (ImageFetch u) = Inr (json_response 404 JNull)"
| "sample_fetch (Stx402Generate b prompt) =
     Inr (json_response 402 (JObj [(''payment'', JObj [(''price'', JNum (Num 1000))])]))"

definition sample_world :: platform where
  "sample_world = offline\<lparr>fetch := sample_fetch\<rparr>"

text \<open>The same world with an image generator that rejects the call.\<close>

definition rejecting_world :: platform where
  "rejecting_world =
     sample_world\<lparr>fetch :=
       (\<lambda>c. case c of
               Generate k prompt \<Rightarrow>
                 Inr (json_response 400
                        (JObj [(''error'', JObj [(''message'', JStr ''Your request was rejected'')])]))
             | _ \<Rightarrow> sample_fetch c)\<rparr>"

text \<open>The sample world at a later time: another UUID, another clock.\<close>

definition later_world :: platform where
  "later_world =
     sample_world\<lparr>randomUUID := ''00000000-0000-4000-8000-000000000000'', now := 1800000000000\<rparr>"

text \<open>The sample world with an image URL that cannot be fetched at all.\<close>

definition unreachable_world :: platform where
  "unreachable_world =
     sample_world\<lparr>fetch :=
       (\<lambda>c. case c of
               ImageFetch u \<Rightarrow> Inl (TypeError ''fetch failed'')
             | _ \<Rightarrow> sample_fetch c)\<rparr>"

section \<open>Predicates of the statements\<close>

text \<open>
  A lookup has failed when its fetch was rejected, its response is not 2xx, or its body
  cannot be read as JSON.
\<close>

definition failed :: "js_error + response \<Rightarrow> bool" where
  "failed r = (case r of Inl e \<Rightarrow> True | Inr res \<Rightarrow> \<not> ok res \<or> isl (json res))"















section \<open>Basic facts\<close>

lemma get_total: "get v k = Inr x \<Longrightarrow> \<exists>y. get v k' = Inr y"
  by (cases v) auto

lemma verifyPayment_calls: "snd (verifyPayment p txid) = [TxLookup (normalizedTxid txid)]"
  by (simp add: verifyPayment_def)

lemma fetchWalletData_calls:
  "snd (fetchWalletData p a) = [BnsLookup a, StxLookup a, FtLookup a, NftLookup a]"
  by (simp add: fetchWalletData_def getBnsName_def getStxBalance_def getFtBalances_def
      getNftHoldings_def)

lemma fetchWalletData_address: "address (fst (fetchWalletData p a)) = a"
  by (simp add: fetchWalletData_def split: prod.splits)

section \<open>Payment-claim normalisation\<close>

text \<open>
  C10. \<^verbatim>\<open>verifyPayment\<close> prepends \<^verbatim>\<open>0x\<close> to the claim exactly when the claim does not
  start with it. The normalised reference always starts with \<^verbatim>\<open>0x\<close>, normalising twice
  is normalising once, and whatever the claim (no length or hex-digit check), the one
  lookup issued reads the transaction URL of the normalised reference.
\<close>

theorem normalizedTxid_prefix_idempotent:
  "normalizedTxid txid = (if startsWith txid ''0x'' then txid else ''0x'' @ txid)
   \<and> startsWith (normalizedTxid txid) ''0x''
   \<and> normalizedTxid (normalizedTxid txid) = normalizedTxid txid
   \<and> map url_of (snd (verifyPayment p txid)) =
       [HIRO_API @ ''/extended/v1/tx/'' @ normalizedTxid txid]"
  by (simp add: normalizedTxid_def startsWith_def verifyPayment_def)

theorem normalizedTxid_prefix_idempotent_witness:
  "normalizedTxid ''zz'' = ''0xzz''
   \<and> normalizedTxid ''0xzz'' = ''0xzz''
   \<and> map url_of (snd (verifyPayment offline ''zz'')) =
       [''https://api.hiro.so/extended/v1/tx/0xzz'']"
  using normalizedTxid_prefix_idempotent [of "''zz''" offline]
    normalizedTxid_prefix_idempotent [of "''0xzz''" offline]
  by (simp add: startsWith_def HIRO_API_def)

section \<open>Malformed addresses\<close>

text \<open>
  C4. An address that does not match \<^verbatim>\<open>/^S[PM][A-Z0-9]{38,40}$/\<close> gets, from each of
  \<^verbatim>\<open>/data\<close>, \<^verbatim>\<open>/prompt\<close> and \<^verbatim>\<open>/card\<close> (of either worker, with or without a payment
  header), the status 400 with a JSON body whose field \<^verbatim>\<open>error\<close> is a string, and not one
  upstream call is made.
\<close>

theorem malformed_address_rejected:
  "\<not> matches_address a \<Longrightarrow>
     data_route p a =
       (Json 400 (JObj [(''error'', JStr ''Invalid Stacks address format'')]), [])
   \<and> prompt_route p a =
       (Json 400 (JObj [(''error'', JStr ''Invalid Stacks address format'')]), [])
   \<and> card_route p a paymentTxid =
       (Json 400 (JObj [(''error'', JStr ''Invalid Stacks address format'')]), [])
   \<and> dev_card_route p a =
       (Json 400 (JObj [(''error'', JStr ''Invalid Stacks address format'')]), [])"
  by (simp add: data_route_def prompt_route_def card_route_def dev_card_route_def
      invalid_address_def)

theorem malformed_address_rejected_witness:
  "\<not> matches_address ''ST2J6ZY48GV1EZ5V2V5RB9MP66SW86PYKKNRV9EJ7''
   \<and> card_route sample_world ''ST2J6ZY48GV1EZ5V2V5RB9MP66SW86PYKKNRV9EJ7'' (Some ''0xabc'') =
       (Json 400 (JObj [(''error'', JStr ''Invalid Stacks address format'')]), [])
   \<and> data_route sample_world ''ST2J6ZY48GV1EZ5V2V5RB9MP66SW86PYKKNRV9EJ7'' =
       (Json 400 (JObj [(''error'', JStr ''Invalid Stacks address format'')]), [])"
proof -
  have bad: "\<not> matches_address ''ST2J6ZY48GV1EZ5V2V5RB9MP66SW86PYKKNRV9EJ7''"
    by (simp add: matches_address_def)
  from malformed_address_rejected [OF bad, of sample_world "Some ''0xabc''"] bad
  show ?thesis by simp
qed

section \<open>The payment verdict\<close>

text \<open>
  C2. \<^verbatim>\<open>verifyPayment\<close> answers \<^verbatim>\<open>valid: true\<close> exactly when the lookup of the referenced
  transaction is answered 2xx with a readable body, the transaction's status is
  \<^verbatim>\<open>success\<close>, its type is \<^verbatim>\<open>contract_call\<close> and the contract it calls is the configured
  one. A valid verdict carries the transaction's \<^verbatim>\<open>sender_address\<close> and no error; every
  other verdict is \<^verbatim>\<open>valid: false\<close> with a reason string. A rejected fetch, a response
  that is not 2xx and an unreadable body each give such an invalid verdict.
\<close>

theorem verifyPayment_valid_iff:
  "(valid (fst (verifyPayment p txid)) \<longleftrightarrow>
      (\<exists>response tx cc.
          fetch p (TxLookup (normalizedTxid txid)) = Inr response \<and> ok response
        \<and> json response = Inr tx
        \<and> get tx ''tx_status'' = Inr (JStr ''success'')
        \<and> get tx ''tx_type'' = Inr (JStr ''contract_call'')
        \<and> get tx ''contract_call'' = Inr cc
        \<and> get_opt cc ''contract_id'' = JStr expectedContract))
   \<and> (valid (fst (verifyPayment p txid)) \<longrightarrow>
        error (fst (verifyPayment p txid)) = None
      \<and> (\<exists>response tx s.
            fetch p (TxLookup (normalizedTxid txid)) = Inr response
          \<and> json response = Inr tx \<and> get tx ''sender_address'' = Inr s
          \<and> sender (fst (verifyPayment p txid)) = Some s))
   \<and> (\<not> valid (fst (verifyPayment p txid)) \<longrightarrow>
        (\<exists>reason. fst (verifyPayment p txid) = invalid reason))
   \<and> (\<forall>e. fetch p (TxLookup (normalizedTxid txid)) = Inl e \<longrightarrow>
        fst (verifyPayment p txid) = invalid (''Verification failed: '' @ error_toString e))
   \<and> (\<forall>response. fetch p (TxLookup (normalizedTxid txid)) = Inr response \<and> \<not> ok response \<longrightarrow>
        fst (verifyPayment p txid) = invalid ''Transaction not found'')
   \<and> (\<forall>response e. fetch p (TxLookup (normalizedTxid txid)) = Inr response \<and> ok response
          \<and> json response = Inl e \<longrightarrow>
        fst (verifyPayment p txid) = invalid (''Verification failed: '' @ error_toString e))
   \<and> expectedContract = ''SPP5ZMH9NQDFD2K5CEQZ6P02AP8YPWMQ75TJW20M.simple-oracle''"
proof (intro conjI)
  show "valid (fst (verifyPayment p txid)) \<longleftrightarrow>
      (\<exists>response tx cc.
          fetch p (TxLookup (normalizedTxid txid)) = Inr response \<and> ok response
        \<and> json response = Inr tx
        \<and> get tx ''tx_status'' = Inr (JStr ''success'')
        \<and> get tx ''tx_type'' = Inr (JStr ''contract_call'')
        \<and> get tx ''contract_call'' = Inr cc
        \<and> get_opt cc ''contract_id'' = JStr expectedContract)"
    unfolding verifyPayment_def verifyPayment_try_def invalid_def
    by (auto split: sum.splits if_splits dest: get_total [where k' = "''sender_address''"])
  show "valid (fst (verifyPayment p txid)) \<longrightarrow>
        error (fst (verifyPayment p txid)) = None
      \<and> (\<exists>response tx s.
            fetch p (TxLookup (normalizedTxid txid)) = Inr response
          \<and> json response = Inr tx \<and> get tx ''sender_address'' = Inr s
          \<and> sender (fst (verifyPayment p txid)) = Some s)"
    unfolding verifyPayment_def verifyPayment_try_def invalid_def
    by (auto split: sum.splits if_splits)
  show "\<not> valid (fst (verifyPayment p txid)) \<longrightarrow>
        (\<exists>reason. fst (verifyPayment p txid) = invalid reason)"
    unfolding verifyPayment_def verifyPayment_try_def
    by (auto split: sum.splits if_splits simp: invalid_def)
  show "\<forall>e. fetch p (TxLookup (normalizedTxid txid)) = Inl e \<longrightarrow>
        fst (verifyPayment p txid) = invalid (''Verification failed: '' @ error_toString e)"
    by (simp add: verifyPayment_def verifyPayment_try_def)
  show "\<forall>response. fetch p (TxLookup (normalizedTxid txid)) = Inr response \<and> \<not> ok response \<longrightarrow>
        fst (verifyPayment p txid) = invalid ''Transaction not found''"
    by (simp add: verifyPayment_def verifyPayment_try_def)
  show "\<forall>response e. fetch p (TxLookup (normalizedTxid txid)) = Inr response \<and> ok response
          \<and> json response = Inl e \<longrightarrow>
        fst (verifyPayment p txid) = invalid (''Verification failed: '' @ error_toString e)"
    by (simp add: verifyPayment_def verifyPayment_try_def)
  show "expectedContract = ''SPP5ZMH9NQDFD2K5CEQZ6P02AP8YPWMQ75TJW20M.simple-oracle''"
    by (simp add: expectedContract_def PAYMENT_CONTRACT_address_def PAYMENT_CONTRACT_name_def)
qed

theorem verifyPayment_valid_iff_witness:
  "valid (fst (verifyPayment sample_world ''abc''))
   \<and> sender (fst (verifyPayment sample_world ''abc'')) =
       Some (JStr ''SP3FBR2AGK5H9QBDH3EEN6DF8EK8JY7RX8QJ5SVTE'')
   \<and> fst (verifyPayment sample_world ''ab'') = invalid ''Transaction not found''
   \<and> fst (verifyPayment offline ''abc'') = invalid ''Verification failed: TypeError: fetch failed''"
proof -
  have f: "fetch sample_world (TxLookup (normalizedTxid ''abc'')) = Inr (json_response 200 sample_tx)"
    by code_simp
  have conds: "ok (json_response 200 sample_tx)"
    "json (json_response 200 sample_tx) = Inr sample_tx"
    "get sample_tx ''tx_status'' = Inr (JStr ''success'')"
    "get sample_tx ''tx_type'' = Inr (JStr ''contract_call'')"
    "get sample_tx ''contract_call'' =
       Inr (JObj [(''contract_id'', JStr ''SPP5ZMH9NQDFD2K5CEQZ6P02AP8YPWMQ75TJW20M.simple-oracle''),
                  (''function_name'', JStr ''call-with-stx'')])"
    "get_opt (JObj [(''contract_id'', JStr ''SPP5ZMH9NQDFD2K5CEQZ6P02AP8YPWMQ75TJW20M.simple-oracle''),
                  (''function_name'', JStr ''call-with-stx'')]) ''contract_id'' = JStr expectedContract"
    "get sample_tx ''sender_address'' = Inr (JStr ''SP3FBR2AGK5H9QBDH3EEN6DF8EK8JY7RX8QJ5SVTE'')"
    by code_simp+
  note inst = verifyPayment_valid_iff [of sample_world "''abc''"]
  have v: "valid (fst (verifyPayment sample_world ''abc''))"
    using inst f conds by blast
  have s: "sender (fst (verifyPayment sample_world ''abc'')) =
       Some (JStr ''SP3FBR2AGK5H9QBDH3EEN6DF8EK8JY7RX8QJ5SVTE'')"
    using inst v f conds by auto
  have g: "fetch sample_world (TxLookup (normalizedTxid ''ab'')) =
      Inr (json_response 404 (JObj [(''error'', JStr ''not found'')]))"
    "\<not> ok (json_response 404 (JObj [(''error'', JStr ''not found'')]))"
    by code_simp+
  have n: "fst (verifyPayment sample_world ''ab'') = invalid ''Transaction not found''"
    using verifyPayment_valid_iff [of sample_world "''ab''"] g by blast
  have h: "fetch offline (TxLookup (normalizedTxid ''abc'')) = Inl (TypeError ''fetch failed'')"
    by code_simp
  have e: "error_toString (TypeError ''fetch failed'') = ''TypeError: fetch failed''"
    by code_simp
  have o: "fst (verifyPayment offline ''abc'') = invalid ''Verification failed: TypeError: fetch failed''"
    using verifyPayment_valid_iff [of offline "''abc''"] h e by simp
  from v s n o show ?thesis by blast
qed

section \<open>The wallet record\<close>







lemma get_opt_get: "get v k = Inr x \<Longrightarrow> x = get_opt v k"
  by (cases v) auto













text \<open>
  C3. The record is built whatever the upstream services do: \<^verbatim>\<open>/data\<close> answers 200 for
  every address that passes the check. A field whose lookup fails (rejected fetch,
  response that is not 2xx, unreadable body) takes its default, independently of the
  other fields: \<^verbatim>\<open>bnsName\<close> null, \<^verbatim>\<open>stxBalance\<close> the string \<^verbatim>\<open>0\<close>, \<^verbatim>\<open>ftBalances\<close> empty,
  \<^verbatim>\<open>nftCount\<close> zero and \<^verbatim>\<open>topNfts\<close> empty; when all four fail the record is those
  defaults around the address.
\<close>

theorem walletData_degrades_to_defaults:
  "(failed (fetch p (BnsLookup a)) \<longrightarrow> bnsName (fst (fetchWalletData p a)) = JNull)
   \<and> (failed (fetch p (StxLookup a)) \<longrightarrow> stxBalance (fst (fetchWalletData p a)) = ''0'')
   \<and> (failed (fetch p (FtLookup a)) \<longrightarrow> ftBalances (fst (fetchWalletData p a)) = [])
   \<and> (failed (fetch p (NftLookup a)) \<longrightarrow>
        nftCount (fst (fetchWalletData p a)) = Num 0 \<and> topNfts (fst (fetchWalletData p a)) = [])
   \<and> (failed (fetch p (BnsLookup a)) \<and> failed (fetch p (StxLookup a))
        \<and> failed (fetch p (FtLookup a)) \<and> failed (fetch p (NftLookup a)) \<longrightarrow>
        fst (fetchWalletData p a) =
          \<lparr>address = a, bnsName = JNull, stxBalance = ''0'', ftBalances = [],
           nftCount = Num 0, topNfts = []\<rparr>)
   \<and> (matches_address a \<longrightarrow>
        (\<exists>w. data_route p a =
               (Json 200 (walletData_json w),
                [BnsLookup a, StxLookup a, FtLookup a, NftLookup a])
           \<and> address w = a))"
proof -
  have bns: "failed (fetch p (BnsLookup a)) \<Longrightarrow> fst (getBnsName p a) = JNull"
    by (auto simp: failed_def getBnsName_def getBnsName_try_def split: sum.splits)
  have stx: "failed (fetch p (StxLookup a)) \<Longrightarrow> fst (getStxBalance p a) = ''0''"
    by (auto simp: failed_def getStxBalance_def getStxBalance_try_def split: sum.splits)
  have ft: "failed (fetch p (FtLookup a)) \<Longrightarrow> fst (getFtBalances p a) = []"
    by (auto simp: failed_def getFtBalances_def getFtBalances_try_def split: sum.splits)
  have nft: "failed (fetch p (NftLookup a)) \<Longrightarrow>
      fst (getNftHoldings p a) = \<lparr>count = Num 0, top = []\<rparr>"
    by (auto simp: failed_def getNftHoldings_def getNftHoldings_try_def split: sum.splits)
  have rec: "fst (fetchWalletData p a) =
      \<lparr>address = a, bnsName = fst (getBnsName p a), stxBalance = fst (getStxBalance p a),
       ftBalances = fst (getFtBalances p a), nftCount = count (fst (getNftHoldings p a)),
       topNfts = top (fst (getNftHoldings p a))\<rparr>"
    by (simp add: fetchWalletData_def split: prod.splits)
  have route: "matches_address a \<Longrightarrow>
      data_route p a = (Json 200 (walletData_json (fst (fetchWalletData p a))),
        [BnsLookup a, StxLookup a, FtLookup a, NftLookup a])"
    using fetchWalletData_calls [of p a]
    by (cases "fetchWalletData p a") (simp add: data_route_def)
  show ?thesis
    using bns stx ft nft route fetchWalletData_address [of p a]
    by (auto simp: rec)
qed

theorem walletData_degrades_to_defaults_witness:
  "matches_address sample_address
   \<and> fst (fetchWalletData offline sample_address) =
       \<lparr>address = sample_address, bnsName = JNull, stxBalance = ''0'', ftBalances = [],
        nftCount = Num 0, topNfts = []\<rparr>
   \<and> (case fst (data_route offline sample_address) of
         Json code body \<Rightarrow> code = 200 | _ \<Rightarrow> False)"
proof -
  have m: "matches_address sample_address"
    by code_simp
  have f: "failed (fetch offline (BnsLookup sample_address))"
    "failed (fetch offline (StxLookup sample_address))"
    "failed (fetch offline (FtLookup sample_address))"
    "failed (fetch offline (NftLookup sample_address))"
    by (simp_all add: failed_def offline_def)
  note inst = walletData_degrades_to_defaults [of offline sample_address]
  from inst f have r: "fst (fetchWalletData offline sample_address) =
       \<lparr>address = sample_address, bnsName = JNull, stxBalance = ''0'', ftBalances = [],
        nftCount = Num 0, topNfts = []\<rparr>" by blast
  from inst m obtain w where "data_route offline sample_address =
      (Json 200 (walletData_json w),
       [BnsLookup sample_address, StxLookup sample_address, FtLookup sample_address,
        NftLookup sample_address])" by blast
  then have "(case fst (data_route offline sample_address) of
         Json code body \<Rightarrow> code = 200 | _ \<Rightarrow> False)" by simp
  with m r show ?thesis by blast
qed

section \<open>The payment gate\<close>

lemma matches_sample_address: "matches_address sample_address"
  by code_simp

lemma card_route_no_claim:
  "matches_address a \<Longrightarrow> card_route p a None = (Json 402 (challenge p a), [])"
  "matches_address a \<Longrightarrow> card_route p a (Some []) = (Json 402 (challenge p a), [])"
  by (simp_all add: card_route_def)

lemma card_route_invalid:
  "matches_address a \<Longrightarrow> txid \<noteq> [] \<Longrightarrow> \<not> valid (fst (verifyPayment p txid)) \<Longrightarrow>
   card_route p a (Some txid) =
     (Json 403
        (JObj [(''error'', JStr ''Payment verification failed''),
               (''details'',
                case error (fst (verifyPayment p txid)) of
                  None \<Rightarrow> JUndefined
                | Some reason \<Rightarrow> JStr reason)]),
      [TxLookup (normalizedTxid txid)])"
  using verifyPayment_calls [of p txid]
  by (cases "verifyPayment p txid") (simp add: card_route_def)

lemma card_route_paid:
  "matches_address a \<Longrightarrow> txid \<noteq> [] \<Longrightarrow> valid (fst (verifyPayment p txid)) \<Longrightarrow>
   card_route p a (Some txid) =
     (fst (card_paid p a txid), TxLookup (normalizedTxid txid) # snd (card_paid p a txid))"
  using verifyPayment_calls [of p txid]
  by (cases "verifyPayment p txid"; cases "card_paid p a txid") (simp add: card_route_def)

lemma invalid_reason:
  "\<not> valid (fst (verifyPayment p txid)) \<Longrightarrow> \<exists>reason. error (fst (verifyPayment p txid)) = Some reason"
  unfolding verifyPayment_def verifyPayment_try_def
  by (auto split: sum.splits if_splits simp: invalid_def)

lemma generateImage_calls:
  "snd (generateImage p k s) = (if k = [] then [] else [Generate k s])"
  by (simp add: generateImage_def)

lemma card_paid_calls:
  "\<exists>rest. snd (card_paid p a txid) =
     [BnsLookup a, StxLookup a, FtLookup a, NftLookup a]
     @ snd (generateImage p (case OPENAI_API_KEY p of None \<Rightarrow> [] | Some k \<Rightarrow> k)
              (buildImagePrompt (fst (fetchWalletData p a))))
     @ rest \<and> (\<forall>c\<in>set rest. \<exists>u. c = ImageFetch u)"
  using fetchWalletData_calls [of p a]
  by (cases "fetchWalletData p a";
      cases "generateImage p (case OPENAI_API_KEY p of None \<Rightarrow> [] | Some k \<Rightarrow> k)
              (buildImagePrompt (fst (fetchWalletData p a)))")
     (auto simp: card_paid_def Let_def split: sum.splits)

lemma card_paid_not_402: "fst (card_paid p a txid) \<noteq> Json 402 body"
  by (cases "fetchWalletData p a";
      cases "generateImage p (case OPENAI_API_KEY p of None \<Rightarrow> [] | Some k \<Rightarrow> k)
              (buildImagePrompt (fst (fetchWalletData p a)))")
     (auto simp: card_paid_def Let_def split: sum.splits)

section \<open>The prompt\<close>

lemma prompt_route_ok:
  "matches_address a \<Longrightarrow>
   prompt_route p a =
     (Json 200
        (JObj [(''walletData'', walletData_json (fst (fetchWalletData p a))),
               (''prompt'', JStr (buildImagePrompt (fst (fetchWalletData p a)))),
               (''note'',
                JStr ''This prompt will be sent to AI image generation when you call /card/:address'')]),
      [BnsLookup a, StxLookup a, FtLookup a, NftLookup a])"
  using fetchWalletData_calls [of p a]
  by (cases "fetchWalletData p a") (simp add: prompt_route_def)

text \<open>
  C7. \<^verbatim>\<open>buildImagePrompt\<close> takes the record and nothing else, so it reads no clock, no
  random source and no upstream service; it has a value for every record. Two requests
  whose lookups resolve to the same record therefore see the same prompt, whatever else
  differs between them: the prompt that \<^verbatim>\<open>/prompt\<close> previews is, byte for byte, the one
  that \<^verbatim>\<open>/card\<close> sends to the image generator once the payment is verified, and \<^verbatim>\<open>/card\<close>
  sends the generator no other prompt.
\<close>

theorem prompt_preview_is_generation_prompt:
  assumes "matches_address a"
    and "fst (fetchWalletData p a) = fst (fetchWalletData p' a)"
    and "txid \<noteq> []" and "valid (fst (verifyPayment p' txid))"
    and "OPENAI_API_KEY p' = Some k" and "k \<noteq> []"
  shows "fst (prompt_route p a) =
           Json 200
             (JObj [(''walletData'', walletData_json (fst (fetchWalletData p a))),
                    (''prompt'', JStr (buildImagePrompt (fst (fetchWalletData p a)))),
                    (''note'',
                     JStr ''This prompt will be sent to AI image generation when you call /card/:address'')])
       \<and> Generate k (buildImagePrompt (fst (fetchWalletData p a)))
           \<in> set (snd (card_route p' a (Some txid)))
       \<and> (\<forall>k' s. Generate k' s \<in> set (snd (card_route p' a (Some txid))) \<longrightarrow>
             s = buildImagePrompt (fst (fetchWalletData p a)))"
proof -
  obtain rest where calls: "snd (card_paid p' a txid) =
     [BnsLookup a, StxLookup a, FtLookup a, NftLookup a]
     @ [Generate k (buildImagePrompt (fst (fetchWalletData p' a)))] @ rest"
    and rest: "\<forall>c\<in>set rest. \<exists>u. c = ImageFetch u"
    using card_paid_calls [of p' a txid] assms(5,6) by (auto simp: generateImage_calls)
  have route: "snd (card_route p' a (Some txid)) =
      TxLookup (normalizedTxid txid) # snd (card_paid p' a txid)"
    using card_route_paid [OF assms(1,3,4)] by simp
  show ?thesis
    using rest by (auto simp: prompt_route_ok [OF assms(1)] route calls assms(2))
qed

theorem prompt_preview_is_generation_prompt_witness:
  "randomUUID later_world \<noteq> randomUUID sample_world
   \<and> Generate ''sk-test'' (buildImagePrompt (fst (fetchWalletData later_world sample_address)))
       \<in> set (snd (card_route sample_world sample_address (Some ''abc'')))
   \<and> fst (prompt_route later_world sample_address) =
           Json 200
             (JObj [(''walletData'', walletData_json (fst (fetchWalletData later_world sample_address))),
                    (''prompt'', JStr (buildImagePrompt (fst (fetchWalletData later_world sample_address)))),
                    (''note'',
                     JStr ''This prompt will be sent to AI image generation when you call /card/:address'')])"
proof -
  have same: "fst (fetchWalletData later_world sample_address) =
      fst (fetchWalletData sample_world sample_address)"
    by code_simp
  have v: "valid (fst (verifyPayment sample_world ''abc''))"
    by code_simp
  have k: "OPENAI_API_KEY sample_world = Some ''sk-test''" "''sk-test'' \<noteq> []" "''abc'' \<noteq> []"
    by code_simp+
  have u: "randomUUID later_world \<noteq> randomUUID sample_world"
    by code_simp
  from prompt_preview_is_generation_prompt
    [OF matches_sample_address same k(3) v k(1) k(2)] u
  show ?thesis by blast
qed

section \<open>The gate's branches\<close>

text \<open>
  C9, as the code has it. On \<^verbatim>\<open>/card\<close> with an address that passes the check, a request
  whose \<^verbatim>\<open>X-Payment\<close> header is not empty, whatever its text, is never answered with a
  402: the transaction lookup is the first upstream call, and an invalid verdict gives
  the 403 whose \<^verbatim>\<open>details\<close> is the verdict's reason, after that one call. The empty header
  value is the exception: \<^verbatim>\<open>!paymentTxid\<close> holds for it, and it gets the 402 challenge.
\<close>

theorem nonempty_claim_is_verified:
  "matches_address a \<Longrightarrow> txid \<noteq> [] \<Longrightarrow>
     (\<forall>body. fst (card_route p a (Some txid)) \<noteq> Json 402 body)
   \<and> hd (snd (card_route p a (Some txid))) = TxLookup (normalizedTxid txid)
   \<and> (\<not> valid (fst (verifyPayment p txid)) \<longrightarrow>
        (\<exists>reason. error (fst (verifyPayment p txid)) = Some reason
           \<and> card_route p a (Some txid) =
               (Json 403
                  (JObj [(''error'', JStr ''Payment verification failed''),
                         (''details'', JStr reason)]),
                [TxLookup (normalizedTxid txid)])))
   \<and> card_route p a (Some []) = (Json 402 (challenge p a), [])"
proof -
  assume a: "matches_address a" and t: "txid \<noteq> []"
  show ?thesis
  proof (cases "valid (fst (verifyPayment p txid))")
    case True
    from card_route_paid [OF a t True] card_paid_not_402 [of p a txid]
    show ?thesis by (simp add: True card_route_no_claim(2) [OF a])
  next
    case False
    from invalid_reason [OF False] obtain reason
      where r: "error (fst (verifyPayment p txid)) = Some reason" by blast
    from card_route_invalid [OF a t False] r
    show ?thesis by (simp add: False card_route_no_claim(2) [OF a])
  qed
qed

theorem nonempty_claim_is_verified_witness:
  "matches_address sample_address
   \<and> card_route sample_world sample_address (Some ''not-a-txid'') =
       (Json 403
          (JObj [(''error'', JStr ''Payment verification failed''),
                 (''details'', JStr ''Transaction not found'')]),
        [TxLookup ''0xnot-a-txid''])"
proof -
  have t: "''not-a-txid'' \<noteq> []" by simp
  have v: "\<not> valid (fst (verifyPayment sample_world ''not-a-txid''))"
    "error (fst (verifyPayment sample_world ''not-a-txid'')) = Some ''Transaction not found''"
    "normalizedTxid ''not-a-txid'' = ''0xnot-a-txid''"
    by code_simp+
  from nonempty_claim_is_verified [OF matches_sample_address t, of sample_world] v
    matches_sample_address
  show ?thesis by auto
qed

text \<open>
  The claim as stated, for any claim value including the empty string, fails: a request
  whose header \<^verbatim>\<open>X-Payment\<close> is present and empty is challenged, with no lookup made.
\<close>

theorem empty_claim_is_challenged:
  "card_route sample_world sample_address (Some []) =
     (Json 402 (challenge sample_world sample_address), [])"
  by (simp add: card_route_def matches_sample_address)

text \<open>
  C6, as the code has it. After the address check, \<^verbatim>\<open>/card\<close> of the payment-gated worker
  branches on the payment header first. Without one it answers the 402 challenge with
  no upstream call. With one, the transaction lookup comes first: an invalid verdict
  ends the request after that single call, and only after a valid verdict are the four
  wallet lookups issued; every later call is the generation with the prompt built from
  them, or the fetch of the image. The stx402 worker of
  \<^verbatim>\<open>src/dev.ts\<close>, which reads no payment header, starts with the four wallet lookups.
\<close>

theorem card_gate_order:
  "matches_address a \<Longrightarrow>
     card_route p a None = (Json 402 (challenge p a), [])
   \<and> (txid \<noteq> [] \<and> \<not> valid (fst (verifyPayment p txid)) \<longrightarrow>
        snd (card_route p a (Some txid)) = [TxLookup (normalizedTxid txid)])
   \<and> (txid \<noteq> [] \<and> valid (fst (verifyPayment p txid)) \<longrightarrow>
        take 5 (snd (card_route p a (Some txid))) =
          [TxLookup (normalizedTxid txid), BnsLookup a, StxLookup a, FtLookup a, NftLookup a])
   \<and> (txid \<noteq> [] \<and> valid (fst (verifyPayment p txid)) \<longrightarrow>
        (\<exists>rest. snd (card_route p a (Some txid)) =
           [TxLookup (normalizedTxid txid), BnsLookup a, StxLookup a, FtLookup a, NftLookup a] @ rest
         \<and> (\<forall>c\<in>set rest.
               c = Generate (case OPENAI_API_KEY p of None \<Rightarrow> [] | Some k \<Rightarrow> k)
                     (buildImagePrompt (fst (fetchWalletData p a)))
               \<or> (\<exists>u. c = ImageFetch u))))
   \<and> take 4 (snd (dev_card_route p a)) = [BnsLookup a, StxLookup a, FtLookup a, NftLookup a]"
proof -
  assume a: "matches_address a"
  have paid: "txid \<noteq> [] \<and> valid (fst (verifyPayment p txid)) \<longrightarrow>
        take 5 (snd (card_route p a (Some txid))) =
          [TxLookup (normalizedTxid txid), BnsLookup a, StxLookup a, FtLookup a, NftLookup a]"
    using card_paid_calls [of p a txid] by (auto simp: card_route_paid [OF a])
  have dev: "take 4 (snd (dev_card_route p a)) = [BnsLookup a, StxLookup a, FtLookup a, NftLookup a]"
    using fetchWalletData_calls [of p a] a
    by (cases "fetchWalletData p a") (auto simp: dev_card_route_def Let_def split: sum.splits)
  have later: "txid \<noteq> [] \<and> valid (fst (verifyPayment p txid)) \<longrightarrow>
        (\<exists>rest. snd (card_route p a (Some txid)) =
           [TxLookup (normalizedTxid txid), BnsLookup a, StxLookup a, FtLookup a, NftLookup a] @ rest
         \<and> (\<forall>c\<in>set rest.
               c = Generate (case OPENAI_API_KEY p of None \<Rightarrow> [] | Some k \<Rightarrow> k)
                     (buildImagePrompt (fst (fetchWalletData p a)))
               \<or> (\<exists>u. c = ImageFetch u)))"
    using card_paid_calls [of p a txid]
    by (auto simp: card_route_paid [OF a] generateImage_calls split: if_splits)
  show ?thesis
    using paid later dev card_route_invalid [OF a, of txid p]
    by (simp add: card_route_no_claim(1) [OF a])
qed

theorem card_gate_order_witness:
  "matches_address sample_address
   \<and> ''abc'' \<noteq> [] \<and> valid (fst (verifyPayment sample_world ''abc''))
   \<and> take 5 (snd (card_route sample_world sample_address (Some ''abc''))) =
          [TxLookup ''0xabc'', BnsLookup sample_address, StxLookup sample_address,
           FtLookup sample_address, NftLookup sample_address]
   \<and> \<not> valid (fst (verifyPayment sample_world ''ab''))
   \<and> snd (card_route sample_world sample_address (Some ''ab'')) = [TxLookup ''0xab'']"
proof -
  have v: "valid (fst (verifyPayment sample_world ''abc''))"
    "\<not> valid (fst (verifyPayment sample_world ''ab''))"
    "normalizedTxid ''abc'' = ''0xabc''" "normalizedTxid ''ab'' = ''0xab''"
    by code_simp+
  from card_gate_order [OF matches_sample_address, of sample_world "''abc''"]
    card_gate_order [OF matches_sample_address, of sample_world "''ab''"]
    v matches_sample_address
  show ?thesis by simp
qed

text \<open>
  The claim as stated fails: the challenge is emitted, and a payment is verified and
  refused, without any wallet lookup, so no record and no prompt exist at the branch.
\<close>

theorem challenge_precedes_aggregation:
  "fst (card_route sample_world sample_address None) =
     Json 402 (challenge sample_world sample_address)
   \<and> snd (card_route sample_world sample_address None) = []
   \<and> snd (card_route sample_world sample_address (Some ''ab'')) = [TxLookup ''0xab'']"
  by code_simp

section \<open>The challenge\<close>

lemma lookup_set_prop: "lookup (set_prop kvs k v) k' = (if k' = k then v else lookup kvs k')"
  by (induction kvs) auto

lemma dev_card_route_402:
  assumes "matches_address a"
    and "fetch p (Stx402Generate (STX402_BASE p) (buildImagePrompt (fst (fetchWalletData p a)))) = Inr res"
    and "status res = 402" and "json res = Inr info"
  shows "fst (dev_card_route p a) =
     Json 402
       (JObj (set_prop
                (set_prop
                   (set_prop (own_entries info) ''note''
                      (JStr ''Pay to generate your wallet identity card''))
                   ''walletData'' (walletData_json (fst (fetchWalletData p a))))
                ''prompt'' (JStr (buildImagePrompt (fst (fetchWalletData p a))))))"
  using assms by (cases "fetchWalletData p a") (simp add: dev_card_route_def Let_def)

text \<open>
  C1, as the code has it. On \<^verbatim>\<open>/card\<close> of the payment-gated worker, with an address that
  passes the check and no payment header, the answer is the 402 challenge, made without
  any upstream call: it names the payment contract, a fresh nonce and an expiry ten
  minutes ahead, and it has no \<^verbatim>\<open>walletData\<close> and no \<^verbatim>\<open>prompt\<close> field. In the stx402
  worker of \<^verbatim>\<open>src/dev.ts\<close>, a 402 of the generator is passed on with the record and the
  prompt added, and that prompt is the one \<^verbatim>\<open>/prompt\<close> returns for the same upstream
  answers.
\<close>

theorem challenge_payload:
  "matches_address a \<Longrightarrow>
     card_route p a None = (Json 402 (challenge p a), [])
   \<and> get_opt (challenge p a) ''walletData'' = JUndefined
   \<and> get_opt (challenge p a) ''prompt'' = JUndefined
   \<and> get_opt (get_opt (challenge p a) ''payment'') ''contract'' = JStr expectedContract
   \<and> get_opt (challenge p a) ''nonce'' = JStr (randomUUID p)
   \<and> get_opt (challenge p a) ''expiresAt'' = JStr (toISOString p (now p + 600000))
   \<and> (\<forall>res info.
         fetch p (Stx402Generate (STX402_BASE p) (buildImagePrompt (fst (fetchWalletData p a))))
           = Inr res \<and> status res = 402 \<and> json res = Inr info \<longrightarrow>
         (\<exists>body. fst (dev_card_route p a) = Json 402 (JObj body)
            \<and> lookup body ''walletData'' = walletData_json (fst (fetchWalletData p a))
            \<and> lookup body ''prompt'' = JStr (buildImagePrompt (fst (fetchWalletData p a)))))
   \<and> fst (prompt_route p a) =
       Json 200
         (JObj [(''walletData'', walletData_json (fst (fetchWalletData p a))),
                (''prompt'', JStr (buildImagePrompt (fst (fetchWalletData p a)))),
                (''note'',
                 JStr ''This prompt will be sent to AI image generation when you call /card/:address'')])"
proof -
  assume a: "matches_address a"
  have fields: "get_opt (challenge p a) ''walletData'' = JUndefined"
    "get_opt (challenge p a) ''prompt'' = JUndefined"
    "get_opt (get_opt (challenge p a) ''payment'') ''contract'' = JStr expectedContract"
    "get_opt (challenge p a) ''nonce'' = JStr (randomUUID p)"
    "get_opt (challenge p a) ''expiresAt'' = JStr (toISOString p (now p + 600000))"
    by (simp_all add: challenge_def expectedContract_def)
  have dev: "\<forall>res info.
         fetch p (Stx402Generate (STX402_BASE p) (buildImagePrompt (fst (fetchWalletData p a))))
           = Inr res \<and> status res = 402 \<and> json res = Inr info \<longrightarrow>
         (\<exists>body. fst (dev_card_route p a) = Json 402 (JObj body)
            \<and> lookup body ''walletData'' = walletData_json (fst (fetchWalletData p a))
            \<and> lookup body ''prompt'' = JStr (buildImagePrompt (fst (fetchWalletData p a))))"
    by (auto simp: dev_card_route_402 [OF a] lookup_set_prop)
  show ?thesis
    using fields dev by (simp add: card_route_no_claim(1) [OF a] prompt_route_ok [OF a])
qed

theorem challenge_payload_witness:
  "matches_address sample_address
   \<and> card_route sample_world sample_address None =
       (Json 402 (challenge sample_world sample_address), [])
   \<and> (\<exists>body. fst (dev_card_route sample_world sample_address) = Json 402 (JObj body)
         \<and> lookup body ''prompt'' =
             JStr (buildImagePrompt (fst (fetchWalletData sample_world sample_address)))
         \<and> fst (prompt_route sample_world sample_address) =
             Json 200
               (JObj [(''walletData'',
                       walletData_json (fst (fetchWalletData sample_world sample_address))),
                      (''prompt'', lookup body ''prompt''),
                      (''note'',
                       JStr ''This prompt will be sent to AI image generation when you call /card/:address'')]))"
proof -
  let ?res = "json_response 402 (JObj [(''payment'', JObj [(''price'', JNum (Num 1000))])])"
  have f: "fetch sample_world
      (Stx402Generate (STX402_BASE sample_world)
         (buildImagePrompt (fst (fetchWalletData sample_world sample_address)))) = Inr ?res"
    by (simp add: sample_world_def)
  have r: "status ?res = 402"
    "json ?res = Inr (JObj [(''payment'', JObj [(''price'', JNum (Num 1000))])])"
    by (simp_all add: json_response_def)
  note inst = challenge_payload [OF matches_sample_address, of sample_world]
  from inst f r obtain body where
    "fst (dev_card_route sample_world sample_address) = Json 402 (JObj body)"
    "lookup body ''prompt'' =
       JStr (buildImagePrompt (fst (fetchWalletData sample_world sample_address)))"
    by blast
  with inst matches_sample_address show ?thesis by auto
qed

text \<open>
  The claim as stated fails: the challenge of the payment-gated worker carries neither
  the record nor the prompt.
\<close>

theorem challenge_embeds_no_wallet_data:
  "fst (card_route sample_world sample_address None) =
     Json 402 (challenge sample_world sample_address)
   \<and> get_opt (challenge sample_world sample_address) ''walletData'' = JUndefined
   \<and> get_opt (challenge sample_world sample_address) ''prompt'' = JUndefined
   \<and> snd (card_route sample_world sample_address None) = []"
  by code_simp

section \<open>Generation failures after a verified payment\<close>

text \<open>
  When the generator fails (no key configured, a rejected call, an unreadable answer),
  the 500 carries the record, the prompt, \<^verbatim>\<open>payment_received: true\<close> and the header's
  transaction id.
\<close>

lemma generation_failure_flags_payment:
  assumes "matches_address a" and "txid \<noteq> []" and "valid (fst (verifyPayment p txid))"
    and "\<not> success (fst (generateImage p (case OPENAI_API_KEY p of None \<Rightarrow> [] | Some k \<Rightarrow> k)
                        (buildImagePrompt (fst (fetchWalletData p a)))))"
  shows "fst (card_route p a (Some txid)) =
     Json 500
       (JObj [(''error'', JStr ''Image generation failed''),
              (''details'',
               opt_val (image_error
                 (fst (generateImage p (case OPENAI_API_KEY p of None \<Rightarrow> [] | Some k \<Rightarrow> k)
                        (buildImagePrompt (fst (fetchWalletData p a))))))),
              (''walletData'', walletData_json (fst (fetchWalletData p a))),
              (''prompt'', JStr (buildImagePrompt (fst (fetchWalletData p a)))),
              (''payment_received'', JBool True),
              (''payment_txid'', JStr txid)])"
  using assms(4)
  by (cases "fetchWalletData p a";
      cases "generateImage p (case OPENAI_API_KEY p of None \<Rightarrow> [] | Some k \<Rightarrow> k)
              (buildImagePrompt (fst (fetchWalletData p a)))")
     (simp add: card_route_paid [OF assms(1-3)] card_paid_def)

text \<open>
  C5. The same does not hold when the generator has answered and the image itself
  cannot be fetched. In the sample world the payment is valid and the image URL answers
  404: the 500 then carries \<^verbatim>\<open>error\<close>, \<^verbatim>\<open>imageUrl\<close> and \<^verbatim>\<open>walletData\<close> only, with no
  prompt and no mark of the payment. When the fetch of the image is rejected, the
  exception leaves the handler. A rejected generation, for comparison, is flagged.
\<close>

theorem image_fetch_failure_drops_payment_flag:
  "valid (fst (verifyPayment sample_world ''abc''))
   \<and> fst (card_route sample_world sample_address (Some ''abc'')) =
       Json 500
         (JObj [(''error'', JStr ''Failed to fetch generated image''),
                (''imageUrl'', JStr ''https://img.example/card.png''),
                (''walletData'',
                 walletData_json (fst (fetchWalletData sample_world sample_address)))])
   \<and> fst (card_route unreachable_world sample_address (Some ''abc'')) =
       Uncaught (TypeError ''fetch failed'')
   \<and> (case fst (card_route rejecting_world sample_address (Some ''abc'')) of
         Json code body \<Rightarrow>
           code = 500 \<and> get_opt body ''payment_received'' = JBool True
           \<and> get_opt body ''payment_txid'' = JStr ''abc''
       | _ \<Rightarrow> False)"
  by code_simp

end
